theory Spec2Isabelle
  imports Main
begin

section \<open>Screens and router state (src/src/App.tsx, lines 34-61)\<close>

text \<open>
  The type \<^verbatim>\<open>Screen\<close> is a union of twenty string literals. Every value that the typed
  callbacks receive is one of them, so it is a datatype. \<^verbatim>\<open>professionalScreen\<close> is declared
  as a union of five literals or null, but \<^verbatim>\<open>handleProfessionalPortalSelection\<close> stores its
  \<^verbatim>\<open>string\<close> argument through an unchecked cast, so the field holds an arbitrary string.
\<close>

datatype Screen =
    Homepage | Login | Signup | Register | Welcome | Home | Doctors | Medicine | Lab
  | Ambulance | Mental | Yoga | Nutrition | Notifications | Profile | Appointments
  | Wellness | Chat | AiSymptomChecker | Subscription

record router_state =
  currentScreen :: Screen
  professionalScreen :: "string option"
  isProfessionalMode :: bool
  pendingNavigation :: "Screen option"
  isTempAccount :: bool
  showRegisterModal :: bool
  userDataComplete :: bool

definition initial_state :: router_state where
  "initial_state =
     \<lparr>currentScreen = Homepage, professionalScreen = None, isProfessionalMode = False,
      pendingNavigation = None, isTempAccount = False, showRegisterModal = False,
      userDataComplete = False\<rparr>"

section \<open>The session supplied by the identity provider (line 50)\<close>

text \<open>
  Only the fields that the component reads are kept. A name is truthy when it is present and
  not the empty string; the phone number is an object, truthy when present; the metadata
  flag \<^verbatim>\<open>profileComplete\<close> is kept by its truthiness.
\<close>

datatype phone = PhoneNumber string

record metadata =
  profileComplete :: bool
  accountType :: "string option"

record user_resource =
  firstName :: "string option"
  lastName :: "string option"
  primaryPhoneNumber :: "phone option"
  publicMetadata :: "metadata option"

record session =
  isSignedIn :: bool
  user :: "user_resource option"
  isLoaded :: bool

definition truthy :: "string option \<Rightarrow> bool" where
  "truthy v = (case v of None \<Rightarrow> False | Some s \<Rightarrow> s \<noteq> [])"

section \<open>Session-change effects (lines 64-99)\<close>

text \<open>
  Both effects of one commit run with the values of the render that scheduled them: the
  argument \<open>snap\<close> is that render's state, \<open>st\<close> the state the setters write to.
\<close>

definition hasBasicInfo :: "user_resource \<Rightarrow> bool" where
  "hasBasicInfo u \<longleftrightarrow>
     truthy (firstName u) \<and> truthy (lastName u) \<and> primaryPhoneNumber u \<noteq> None"

definition hasMetadata :: "user_resource \<Rightarrow> bool" where
  "hasMetadata u = (case publicMetadata u of None \<Rightarrow> False | Some m \<Rightarrow> profileComplete m)"

definition isTemp :: "user_resource \<Rightarrow> bool" where
  "isTemp u \<longleftrightarrow>
     (case publicMetadata u of None \<Rightarrow> False | Some m \<Rightarrow> accountType m = Some ''temporary'')
     \<or> \<not> hasBasicInfo u"

definition profile_effect :: "session \<Rightarrow> router_state \<Rightarrow> router_state" where
  "profile_effect sess st =
     (case user sess of
        None \<Rightarrow> st
      | Some u \<Rightarrow>
          if \<not> isSignedIn sess then st
          else st\<lparr>userDataComplete := hasBasicInfo u \<or> hasMetadata u,
                  isTempAccount := isTemp u\<rparr>)"

definition auth_effect :: "session \<Rightarrow> router_state \<Rightarrow> router_state \<Rightarrow> router_state" where
  "auth_effect sess snap st =
     (if \<not> isLoaded sess then st
      else if isSignedIn sess \<and> user sess \<noteq> None then
        (case pendingNavigation snap of
           Some p \<Rightarrow> st\<lparr>currentScreen := p, pendingNavigation := None\<rparr>
         | None \<Rightarrow>
             if \<not> userDataComplete snap \<and> currentScreen snap \<noteq> Register
             then st\<lparr>currentScreen := Register\<rparr>
             else if currentScreen snap = Homepage \<or> currentScreen snap = Login
                     \<or> currentScreen snap = Signup
             then st\<lparr>currentScreen := Welcome\<rparr>
             else st)
      else if \<not> isSignedIn sess
              \<and> (currentScreen snap = Home \<or> currentScreen snap = Welcome)
      then st\<lparr>currentScreen := Homepage\<rparr>
      else st)"

definition onSessionChange :: "session \<Rightarrow> router_state \<Rightarrow> router_state" where
  "onSessionChange sess s = auth_effect sess s (profile_effect sess s)"


section \<open>Property lookup on an object literal\<close>

text \<open>
  \<^verbatim>\<open>screenMap[key]\<close> on an object literal finds the literal's own keys first and then the
  members every object inherits from \<^verbatim>\<open>Object.prototype\<close>; all of those are functions or
  objects, hence truthy. Only a key found in neither place yields \<^verbatim>\<open>undefined\<close>.
\<close>

datatype 'a property = Own 'a | Inherited string | Undefined

definition objectPrototypeKeys :: "string list" where
  "objectPrototypeKeys =
     [''constructor'', ''__defineGetter__'', ''__defineSetter__'', ''hasOwnProperty'',
      ''__lookupGetter__'', ''__lookupSetter__'', ''isPrototypeOf'', ''propertyIsEnumerable'',
      ''toString'', ''valueOf'', ''__proto__'', ''toLocaleString'']"

definition object_get :: "(string \<times> 'a) list \<Rightarrow> string \<Rightarrow> 'a property" where
  "object_get literal key =
     (case map_of literal key of
        Some v \<Rightarrow> Own v
      | None \<Rightarrow> if key \<in> set objectPrototypeKeys then Inherited key else Undefined)"

text \<open>
  A state setter typed \<^verbatim>\<open>Screen\<close> that receives an inherited member leaves the typed
  router state: the framework applies a function argument as an updater (its result is no
  screen name, or it throws), and stores any other object as it is.
\<close>

datatype fault = NonScreenValue string

section \<open>Navigation handlers (lines 182-305)\<close>

definition handleGoToLogin :: "router_state \<Rightarrow> router_state" where
  "handleGoToLogin s = s\<lparr>currentScreen := Login\<rparr>"

definition handleGoToSignup :: "router_state \<Rightarrow> router_state" where
  "handleGoToSignup s = s\<lparr>currentScreen := Signup\<rparr>"

definition handleGoToRegister :: "router_state \<Rightarrow> router_state" where
  "handleGoToRegister s = s\<lparr>currentScreen := Register\<rparr>"

definition handleBackToHomepage :: "router_state \<Rightarrow> router_state" where
  "handleBackToHomepage s =
     s\<lparr>currentScreen := Homepage, isProfessionalMode := False, professionalScreen := None\<rparr>"

definition handleNavigation :: "Screen \<Rightarrow> router_state \<Rightarrow> router_state" where
  "handleNavigation screen s = s\<lparr>currentScreen := screen\<rparr>"

definition handleProfessionalPortalAccess :: "router_state \<Rightarrow> router_state" where
  "handleProfessionalPortalAccess s =
     s\<lparr>isProfessionalMode := True, professionalScreen := Some ''professional-portal''\<rparr>"

definition handleSimpleSignupComplete :: "router_state \<Rightarrow> router_state" where
  "handleSimpleSignupComplete s = s\<lparr>isTempAccount := True\<rparr>"

definition handleWelcomeComplete :: "router_state \<Rightarrow> router_state" where
  "handleWelcomeComplete s = s\<lparr>currentScreen := Home\<rparr>"

definition handleOpenRegisterModal :: "router_state \<Rightarrow> router_state" where
  "handleOpenRegisterModal s = s\<lparr>showRegisterModal := True\<rparr>"

definition handleCloseRegisterModal :: "router_state \<Rightarrow> router_state" where
  "handleCloseRegisterModal s = s\<lparr>showRegisterModal := False\<rparr>"

definition backToHome :: "router_state \<Rightarrow> router_state" where
  "backToHome s = s\<lparr>currentScreen := Home\<rparr>"

definition restrictedScreens :: "Screen list" where
  "restrictedScreens = [Appointments, AiSymptomChecker, Wellness]"

definition handleTrialFeatureAccess :: "Screen \<Rightarrow> router_state \<Rightarrow> router_state" where
  "handleTrialFeatureAccess featureScreen s =
     (if isTempAccount s \<and> featureScreen \<in> set restrictedScreens
      then s\<lparr>showRegisterModal := True\<rparr>
      else s\<lparr>currentScreen := featureScreen\<rparr>)"

definition featureScreenMap :: "(string \<times> Screen) list" where
  "featureScreenMap =
     [(''doctors'', Doctors), (''medicine'', Medicine), (''lab'', Lab),
      (''ambulance'', Ambulance)]"

definition handleNavigateToFeature ::
  "session \<Rightarrow> string \<Rightarrow> router_state \<Rightarrow> fault + router_state" where
  "handleNavigateToFeature sess featureType s =
     (case object_get featureScreenMap featureType of
        Undefined \<Rightarrow> Inr s
      | Own targetScreen \<Rightarrow>
          if isSignedIn sess then Inr (s\<lparr>currentScreen := targetScreen\<rparr>)
          else Inr (s\<lparr>pendingNavigation := Some targetScreen, currentScreen := Signup\<rparr>)
      | Inherited member \<Rightarrow> Inl (NonScreenValue member))"

definition handleProfessionalPortalSelection :: "string \<Rightarrow> router_state \<Rightarrow> router_state" where
  "handleProfessionalPortalSelection portal s = s\<lparr>professionalScreen := Some portal\<rparr>"

definition handleBackToProfessionalPortal :: "router_state \<Rightarrow> router_state" where
  "handleBackToProfessionalPortal s = s\<lparr>professionalScreen := Some ''professional-portal''\<rparr>"

definition tabScreenMap :: "(string \<times> Screen) list" where
  "tabScreenMap =
     [(''home'', Home), (''appointments'', Appointments), (''wellness'', Wellness),
      (''chat'', Chat), (''profile'', Profile)]"

definition handleTabChange :: "string \<Rightarrow> router_state \<Rightarrow> fault + router_state" where
  "handleTabChange tab s =
     (case object_get tabScreenMap tab of
        Undefined \<Rightarrow> Inr (handleTrialFeatureAccess Home s)
      | Own targetScreen \<Rightarrow> Inr (handleTrialFeatureAccess targetScreen s)
      | Inherited member \<Rightarrow> Inl (NonScreenValue member))"

section \<open>The identity provider as a collaborator\<close>

text \<open>
  A call to the provider takes the provider's state \<open>'w\<close> and either throws or returns.
  A thrown value is read only through \<^verbatim>\<open>error.errors?.[0]?.longMessage\<close>. Each handler
  also returns the provider calls it made, in order.
\<close>

record api_error =
  longMessage :: "string option"

record thrown =
  errors :: "api_error list option"

type_synonym ('w, 'a) provider_call = "'w \<Rightarrow> (thrown + 'a) \<times> 'w"

definition first_longMessage :: "thrown \<Rightarrow> string option" where
  "first_longMessage e =
     (case errors e of None \<Rightarrow> None | Some [] \<Rightarrow> None | Some (x # _) \<Rightarrow> longMessage x)"

definition or_else :: "string option \<Rightarrow> string \<Rightarrow> string" where
  "or_else v fallback = (if truthy v then (case v of Some s \<Rightarrow> s | None \<Rightarrow> fallback) else fallback)"

record user_data =
  data_firstName :: string
  data_lastName :: string
  data_dateOfBirth :: string
  data_phone :: string
  data_address :: string

datatype update_request = TemporaryAccount | CompleteProfile user_data

datatype provider_request =
    SignInCreate string string
  | SignUpCreate string string
  | PrepareEmailAddressVerification
  | AttemptEmailAddressVerification string
  | UserUpdate update_request

record 'w signUp_resource =
  create :: "string \<Rightarrow> string \<Rightarrow> ('w, string) provider_call"
  prepareEmailAddressVerification :: "('w, unit) provider_call"
  attemptEmailAddressVerification :: "string \<Rightarrow> ('w, string) provider_call"

record auth_result =
  success :: bool
  error :: "string option"
  needsVerification :: bool

definition succeeded :: auth_result where
  "succeeded = \<lparr>success = True, error = None, needsVerification = False\<rparr>"

definition failed :: "string \<Rightarrow> auth_result" where
  "failed msg = \<lparr>success = False, error = Some msg, needsVerification = False\<rparr>"

section \<open>Login, signup and verification (lines 102-180)\<close>

definition handleLogin ::
  "(string \<Rightarrow> string \<Rightarrow> ('w, string) provider_call) option \<Rightarrow> string \<Rightarrow> string \<Rightarrow> 'w
     \<Rightarrow> auth_result \<times> provider_request list \<times> 'w" where
  "handleLogin signIn email password w =
     (case signIn of
        None \<Rightarrow> (failed ''Login not available'', [], w)
      | Some signIn_create \<Rightarrow>
          (case signIn_create email password w of
             (Inr status, w') \<Rightarrow>
               if status = ''complete'' then (succeeded, [SignInCreate email password], w')
               else (failed ''Additional verification required'',
                     [SignInCreate email password], w')
           | (Inl err, w') \<Rightarrow>
               (failed (or_else (first_longMessage err) ''Login failed''),
                [SignInCreate email password], w')))"

definition handleSignup ::
  "'w signUp_resource option \<Rightarrow> (update_request \<Rightarrow> ('w, unit) provider_call) option
     \<Rightarrow> string \<Rightarrow> string \<Rightarrow> bool \<Rightarrow> 'w \<Rightarrow> auth_result \<times> provider_request list \<times> 'w" where
  "handleSignup signUp userUpdate email password isSimple w =
     (case signUp of
        None \<Rightarrow> (failed ''Signup not available'', [], w)
      | Some su \<Rightarrow>
          (case create su email password w of
             (Inl err, w1) \<Rightarrow>
               (failed (or_else (first_longMessage err) ''Signup failed''),
                [SignUpCreate email password], w1)
           | (Inr status, w1) \<Rightarrow>
               if status = ''missing_requirements'' then
                 (case prepareEmailAddressVerification su w1 of
                    (Inl err, w2) \<Rightarrow>
                      (failed (or_else (first_longMessage err) ''Signup failed''),
                       [SignUpCreate email password, PrepareEmailAddressVerification], w2)
                  | (Inr _, w2) \<Rightarrow>
                      (succeeded\<lparr>needsVerification := True\<rparr>,
                       [SignUpCreate email password, PrepareEmailAddressVerification], w2))
               else if status = ''complete'' then
                 (case (if isSimple then userUpdate else None) of
                    Some update \<Rightarrow>
                      (case update TemporaryAccount w1 of
                         (Inl err, w2) \<Rightarrow>
                           (failed (or_else (first_longMessage err) ''Signup failed''),
                            [SignUpCreate email password, UserUpdate TemporaryAccount], w2)
                       | (Inr _, w2) \<Rightarrow>
                           (succeeded,
                            [SignUpCreate email password, UserUpdate TemporaryAccount], w2))
                  | None \<Rightarrow> (succeeded, [SignUpCreate email password], w1))
               else (failed ''Signup incomplete'', [SignUpCreate email password], w1)))"

definition handleVerifyEmail ::
  "'w signUp_resource option \<Rightarrow> string \<Rightarrow> 'w \<Rightarrow> auth_result \<times> provider_request list \<times> 'w" where
  "handleVerifyEmail signUp code w =
     (case signUp of
        None \<Rightarrow> (failed ''Verification not available'', [], w)
      | Some su \<Rightarrow>
          (case attemptEmailAddressVerification su code w of
             (Inr status, w') \<Rightarrow>
               if status = ''complete''
               then (succeeded, [AttemptEmailAddressVerification code], w')
               else (failed ''Verification failed'', [AttemptEmailAddressVerification code], w')
           | (Inl err, w') \<Rightarrow>
               (failed (or_else (first_longMessage err) ''Verification failed''),
                [AttemptEmailAddressVerification code], w')))"

section \<open>Completing the registration (lines 200-231)\<close>

text \<open>
  The handler returns the router state, the lines written with \<^verbatim>\<open>console.error\<close> and the
  provider's state. \<open>userUpdate\<close> is the method \<^verbatim>\<open>user.update\<close> of the signed-in user.
\<close>

type_synonym console = "(string \<times> thrown) list"

definition handleRegistrationComplete ::
  "session \<Rightarrow> (update_request \<Rightarrow> ('w, unit) provider_call) \<Rightarrow> user_data \<Rightarrow> router_state \<Rightarrow> 'w
     \<Rightarrow> router_state \<times> console \<times> 'w" where
  "handleRegistrationComplete sess userUpdate userData s w =
     (case user sess of
        None \<Rightarrow> (s, [], w)
      | Some _ \<Rightarrow>
          (case userUpdate (CompleteProfile userData) w of
             (Inl err, w') \<Rightarrow> (s, [(''Failed to update user profile:'', err)], w')
           | (Inr _, w') \<Rightarrow>
               (let s1 = s\<lparr>userDataComplete := True, isTempAccount := False,
                            showRegisterModal := False\<rparr>
                in (case pendingNavigation s of
                      Some p \<Rightarrow> s1\<lparr>currentScreen := p, pendingNavigation := None\<rparr>
                    | None \<Rightarrow> s1\<lparr>currentScreen := Welcome\<rparr>),
                [], w')))"

section \<open>Which callbacks a render hands out (lines 308-522)\<close>

text \<open>
  The component mounts one view per render and passes callbacks to the components of that
  view only. \<^verbatim>\<open>handleLogin\<close>, \<^verbatim>\<open>handleSignup\<close> and \<^verbatim>\<open>handleVerifyEmail\<close> call no state setter
  and are left out of the actions; \<^verbatim>\<open>handleGoToRegister\<close> is bound to no component.
\<close>

datatype view =
    LoadingView | ProfessionalPortalView | DoctorDashboardView | PharmacistDashboardView
  | LabDashboardView | AmbulanceDashboardView | HomepageView | LoginView | SignupView
  | RegistrationView | WelcomeView | MainView

definition renderProfessionalScreen :: "router_state \<Rightarrow> view" where
  "renderProfessionalScreen s =
     (case professionalScreen s of
        None \<Rightarrow> ProfessionalPortalView
      | Some p \<Rightarrow>
          if p = ''professional-portal'' then ProfessionalPortalView
          else if p = ''doctor-dashboard'' then DoctorDashboardView
          else if p = ''pharmacist-dashboard'' then PharmacistDashboardView
          else if p = ''lab-dashboard'' then LabDashboardView
          else if p = ''ambulance-dashboard'' then AmbulanceDashboardView
          else ProfessionalPortalView)"

definition render :: "session \<Rightarrow> router_state \<Rightarrow> view" where
  "render sess s =
     (if \<not> isLoaded sess then LoadingView
      else if isProfessionalMode s then renderProfessionalScreen s
      else if \<not> isSignedIn sess then
        (if currentScreen s = Login then LoginView
         else if currentScreen s = Signup then SignupView
         else HomepageView)
      else if currentScreen s = Register then RegistrationView
      else if currentScreen s = Welcome then WelcomeView
      else MainView)"

datatype action =
    GoToLogin | GoToSignup | BackToHomepage
  | RegistrationComplete user_data "thrown + unit"
  | Navigation Screen | ProfessionalPortalAccess | SimpleSignupComplete | WelcomeComplete
  | OpenRegisterModal | CloseRegisterModal | NavigateToFeature string
  | ProfessionalPortalSelection string | BackToProfessionalPortal | TabChange string
  | BackToHome

text \<open>
  In the main view the callbacks come from \<^verbatim>\<open>renderScreen\<close> (by the current screen), the
  trial banner (temporary accounts only), the tab bar and the register modal.
\<close>

definition backScreens :: "Screen list" where
  "backScreens =
     [Doctors, Medicine, Lab, Ambulance, Mental, AiSymptomChecker, Yoga, Nutrition,
      Appointments, Subscription, Chat, Profile]"

definition offered :: "session \<Rightarrow> router_state \<Rightarrow> action \<Rightarrow> bool" where
  "offered sess s a =
     (case render sess s of
        LoadingView \<Rightarrow> False
      | ProfessionalPortalView \<Rightarrow>
          (case a of ProfessionalPortalSelection _ \<Rightarrow> True | BackToHomepage \<Rightarrow> True
           | _ \<Rightarrow> False)
      | DoctorDashboardView \<Rightarrow> (case a of BackToProfessionalPortal \<Rightarrow> True | _ \<Rightarrow> False)
      | PharmacistDashboardView \<Rightarrow> (case a of BackToProfessionalPortal \<Rightarrow> True | _ \<Rightarrow> False)
      | LabDashboardView \<Rightarrow> (case a of BackToProfessionalPortal \<Rightarrow> True | _ \<Rightarrow> False)
      | AmbulanceDashboardView \<Rightarrow> (case a of BackToProfessionalPortal \<Rightarrow> True | _ \<Rightarrow> False)
      | HomepageView \<Rightarrow>
          (case a of GoToLogin \<Rightarrow> True | GoToSignup \<Rightarrow> True | ProfessionalPortalAccess \<Rightarrow> True
           | NavigateToFeature _ \<Rightarrow> True | _ \<Rightarrow> False)
      | LoginView \<Rightarrow> (case a of GoToSignup \<Rightarrow> True | BackToHomepage \<Rightarrow> True | _ \<Rightarrow> False)
      | SignupView \<Rightarrow>
          (case a of SimpleSignupComplete \<Rightarrow> True | BackToHomepage \<Rightarrow> True | _ \<Rightarrow> False)
      | RegistrationView \<Rightarrow>
          (case a of RegistrationComplete _ _ \<Rightarrow> True | GoToLogin \<Rightarrow> True | _ \<Rightarrow> False)
      | WelcomeView \<Rightarrow> (case a of WelcomeComplete \<Rightarrow> True | _ \<Rightarrow> False)
      | MainView \<Rightarrow>
          (case a of
             OpenRegisterModal \<Rightarrow> isTempAccount s \<or> currentScreen s = Home
           | Navigation _ \<Rightarrow>
               currentScreen s = Appointments \<or>
               (currentScreen s \<notin> set backScreens \<and> currentScreen s \<noteq> Notifications
                \<and> currentScreen s \<noteq> Wellness)
           | BackToHome \<Rightarrow> currentScreen s \<in> set backScreens
           | TabChange _ \<Rightarrow> True
           | CloseRegisterModal \<Rightarrow> True
           | RegistrationComplete _ _ \<Rightarrow> True
           | _ \<Rightarrow> False))"

text \<open>
  The effect of an action on the router state. For the registration the outcome of
  \<^verbatim>\<open>user.update\<close> comes with the action.
\<close>

definition perform :: "session \<Rightarrow> action \<Rightarrow> router_state \<Rightarrow> fault + router_state" where
  "perform sess a s =
     (case a of
        GoToLogin \<Rightarrow> Inr (handleGoToLogin s)
      | GoToSignup \<Rightarrow> Inr (handleGoToSignup s)
      | BackToHomepage \<Rightarrow> Inr (handleBackToHomepage s)
      | RegistrationComplete userData outcome \<Rightarrow>
          Inr (fst (handleRegistrationComplete sess (\<lambda>_ w. (outcome, w)) userData s ()))
      | Navigation screen \<Rightarrow> Inr (handleNavigation screen s)
      | ProfessionalPortalAccess \<Rightarrow> Inr (handleProfessionalPortalAccess s)
      | SimpleSignupComplete \<Rightarrow> Inr (handleSimpleSignupComplete s)
      | WelcomeComplete \<Rightarrow> Inr (handleWelcomeComplete s)
      | OpenRegisterModal \<Rightarrow> Inr (handleOpenRegisterModal s)
      | CloseRegisterModal \<Rightarrow> Inr (handleCloseRegisterModal s)
      | NavigateToFeature featureType \<Rightarrow> handleNavigateToFeature sess featureType s
      | ProfessionalPortalSelection portal \<Rightarrow> Inr (handleProfessionalPortalSelection portal s)
      | BackToProfessionalPortal \<Rightarrow> Inr (handleBackToProfessionalPortal s)
      | TabChange tab \<Rightarrow> handleTabChange tab s
      | BackToHome \<Rightarrow> Inr (backToHome s))"

text \<open>
  The states the router reaches: from the initial state, by a commit's effects under any
  session, by the authentication effect running again after a state change, and by an
  action that the current render offers.
\<close>

inductive reachable :: "router_state \<Rightarrow> bool" where
  start: "reachable initial_state"
| session_change: "reachable s \<Longrightarrow> reachable (onSessionChange sess s)"
| rerun: "reachable s \<Longrightarrow> reachable (auth_effect sess s s)"
| event: "reachable s \<Longrightarrow> offered sess s a \<Longrightarrow> perform sess a s = Inr s' \<Longrightarrow> reachable s'"

definition professional_invariant :: "router_state \<Rightarrow> bool" where
  "professional_invariant s \<longleftrightarrow> (professionalScreen s \<noteq> None \<longrightarrow> isProfessionalMode s)"

section \<open>The proxy endpoint (src/unnamed/part_000)\<close>

text \<open>
  \<^verbatim>\<open>fetch\<close> is a parameter: it either rejects or resolves with a response whose
  \<^verbatim>\<open>json()\<close> yields a value or rejects (\<open>None\<close>). The body sent is the serialisation of
  the parsed request body; the model keeps the JSON value of type \<open>'j\<close>. With no
  \<^verbatim>\<open>BACKEND_URL\<close> in the environment \<^verbatim>\<open>fetch\<close> rejects.
\<close>

record 'j request =
  req_method :: string
  req_body :: 'j

record 'j fetch_request =
  url :: string
  fetch_method :: string
  headers :: "(string \<times> string) list"
  fetch_body :: 'j

datatype 'j fetch_outcome = Rejected | Resolved "'j option"

datatype 'j payload = ErrorMessage string | Data 'j

record 'j response =
  status :: nat
  json :: "'j payload"

definition handler ::
  "('j fetch_request \<Rightarrow> 'j fetch_outcome) \<Rightarrow> string option \<Rightarrow> 'j request
     \<Rightarrow> 'j response \<times> 'j fetch_request list \<times> string list" where
  "handler fetch BACKEND_URL req =
     (if req_method req \<noteq> ''POST''
      then (\<lparr>status = 405, json = ErrorMessage ''Method not allowed''\<rparr>, [], [])
      else
        (case BACKEND_URL of
           None \<Rightarrow>
             (\<lparr>status = 500, json = ErrorMessage ''Failed to reach backend''\<rparr>, [],
              [''TypeError''])
         | Some backendUrl \<Rightarrow>
             (let sent = \<lparr>url = backendUrl, fetch_method = ''POST'',
                           headers = [(''Content-Type'', ''application/json'')],
                           fetch_body = req_body req\<rparr>
              in case fetch sent of
                   Resolved (Some data) \<Rightarrow> (\<lparr>status = 200, json = Data data\<rparr>, [sent], [])
                 | Resolved None \<Rightarrow>
                     (\<lparr>status = 500, json = ErrorMessage ''Failed to reach backend''\<rparr>,
                      [sent], [''SyntaxError''])
                 | Rejected \<Rightarrow>
                     (\<lparr>status = 500, json = ErrorMessage ''Failed to reach backend''\<rparr>,
                      [sent], [''TypeError'']))))"

section \<open>Sessions, providers and backends used in the examples\<close>

definition signed_out :: session where
  "signed_out = \<lparr>isSignedIn = False, user = None, isLoaded = True\<rparr>"

definition complete_user :: user_resource where
  "complete_user =
     \<lparr>firstName = Some ''Asha'', lastName = Some ''Rao'',
      primaryPhoneNumber = Some (PhoneNumber ''5550100''),
      publicMetadata = Some \<lparr>profileComplete = True, accountType = Some ''full''\<rparr>\<rparr>"

definition new_user :: user_resource where
  "new_user =
     \<lparr>firstName = None, lastName = None, primaryPhoneNumber = None,
      publicMetadata = Some \<lparr>profileComplete = False, accountType = None\<rparr>\<rparr>"

definition signed_in :: "user_resource \<Rightarrow> session" where
  "signed_in u = \<lparr>isSignedIn = True, user = Some u, isLoaded = True\<rparr>"

definition second_factor_signIn :: "string \<Rightarrow> string \<Rightarrow> (unit, string) provider_call" where
  "second_factor_signIn identifier password w = (Inr ''needs_second_factor'', w)"

definition unreachable_signIn :: "string \<Rightarrow> string \<Rightarrow> (unit, string) provider_call" where
  "unreachable_signIn identifier password w = (Inl \<lparr>errors = None\<rparr>, w)"

definition wrong_password :: thrown where
  "wrong_password = \<lparr>errors = Some [\<lparr>longMessage = Some ''Password is incorrect.''\<rparr>]\<rparr>"

definition rejecting_signIn :: "string \<Rightarrow> string \<Rightarrow> (unit, string) provider_call" where
  "rejecting_signIn identifier password w = (Inl wrong_password, w)"

definition example_signUp :: "unit signUp_resource" where
  "example_signUp =
     \<lparr>create = (\<lambda>emailAddress password w. (Inr ''missing_requirements'', w)),
      prepareEmailAddressVerification = (\<lambda>w. (Inl \<lparr>errors = Some []\<rparr>, w)),
      attemptEmailAddressVerification = (\<lambda>code w. (Inr ''expired'', w))\<rparr>"

definition example_data :: user_data where
  "example_data =
     \<lparr>data_firstName = ''Asha'', data_lastName = ''Rao'', data_dateOfBirth = ''1990-01-01'',
      data_phone = ''5550100'', data_address = ''12 Lake Road''\<rparr>"

definition failing_update :: "update_request \<Rightarrow> (unit, unit) provider_call" where
  "failing_update request w = (Inl \<lparr>errors = None\<rparr>, w)"

definition accepting_update :: "update_request \<Rightarrow> (unit, unit) provider_call" where
  "accepting_update request w = (Inr (), w)"

definition answering_backend :: "string fetch_request \<Rightarrow> string fetch_outcome" where
  "answering_backend r = Resolved (Some ''pong'')"

definition unreachable_backend :: "string fetch_request \<Rightarrow> string fetch_outcome" where
  "unreachable_backend r = Rejected"

section \<open>Restricted features of a temporary account\<close>

text \<open>
  Claim C2. For a temporary account and a screen among \<^verbatim>\<open>appointments\<close>,
  \<^verbatim>\<open>ai-symptom-checker\<close> and \<^verbatim>\<open>wellness\<close>, \<^verbatim>\<open>handleTrialFeatureAccess\<close> opens the register
  modal and changes no other field; for any other screen, or an account that is not
  temporary, it sets \<open>currentScreen\<close> to the requested screen.
\<close>

theorem trial_feature_access:
  "(isTempAccount s \<and> S \<in> {Appointments, AiSymptomChecker, Wellness} \<longrightarrow>
      handleTrialFeatureAccess S s = s\<lparr>showRegisterModal := True\<rparr>) \<and>
   (\<not> (isTempAccount s \<and> S \<in> {Appointments, AiSymptomChecker, Wellness}) \<longrightarrow>
      handleTrialFeatureAccess S s = s\<lparr>currentScreen := S\<rparr>)"
  by (auto simp add: handleTrialFeatureAccess_def restrictedScreens_def)

theorem trial_feature_access_witness:
  "handleTrialFeatureAccess Wellness (initial_state\<lparr>isTempAccount := True\<rparr>) =
     initial_state\<lparr>isTempAccount := True, showRegisterModal := True\<rparr> \<and>
   handleTrialFeatureAccess Chat (initial_state\<lparr>isTempAccount := True\<rparr>) =
     initial_state\<lparr>isTempAccount := True, currentScreen := Chat\<rparr> \<and>
   handleTrialFeatureAccess Wellness initial_state = initial_state\<lparr>currentScreen := Wellness\<rparr>"
  using trial_feature_access [of "initial_state\<lparr>isTempAccount := True\<rparr>" Wellness]
    trial_feature_access [of "initial_state\<lparr>isTempAccount := True\<rparr>" Chat]
    trial_feature_access [of initial_state Wellness]
  by (simp add: initial_state_def)

section \<open>Professional mode\<close>

text \<open>
  Claim C7. Entering professional mode sets \<open>isProfessionalMode\<close> and puts
  \<open>professionalScreen\<close> on \<^verbatim>\<open>professional-portal\<close>; the result does not depend on the
  value that \<open>professionalScreen\<close> had before.
\<close>

theorem enter_professional_mode:
  "isProfessionalMode (handleProfessionalPortalAccess s) \<and>
   professionalScreen (handleProfessionalPortalAccess s) = Some ''professional-portal'' \<and>
   handleProfessionalPortalAccess (s\<lparr>professionalScreen := before\<rparr>) =
     handleProfessionalPortalAccess s"
  by (simp add: handleProfessionalPortalAccess_def)

text \<open>
  Claim C8. Leaving professional mode, from any router state, clears
  \<open>isProfessionalMode\<close> and \<open>professionalScreen\<close> and sets \<open>currentScreen\<close> to
  \<^verbatim>\<open>homepage\<close>.
\<close>

theorem exit_professional_mode:
  "isProfessionalMode (handleBackToHomepage s) = False \<and>
   professionalScreen (handleBackToHomepage s) = None \<and>
   currentScreen (handleBackToHomepage s) = Homepage"
  by (simp add: handleBackToHomepage_def)

section \<open>Repeating the session-change effects\<close>

lemma profile_effect_idem: "profile_effect sess (profile_effect sess s) = profile_effect sess s"
  by (simp add: profile_effect_def split: option.splits)

lemma profile_auth_commute:
  "profile_effect sess (auth_effect sess snap st) = auth_effect sess snap (profile_effect sess st)"
  by (cases "user sess"; cases "pendingNavigation snap")
     (simp_all add: profile_effect_def auth_effect_def)

lemma profile_after_change: "profile_effect sess (onSessionChange sess s) = onSessionChange sess s"
  by (simp add: onSessionChange_def profile_auth_commute profile_effect_idem)

lemma pending_after_change:
  "isLoaded sess \<Longrightarrow> isSignedIn sess \<Longrightarrow> user sess \<noteq> None \<Longrightarrow>
     pendingNavigation (onSessionChange sess s) = None"
  by (cases "pendingNavigation s"; cases "user sess")
     (simp_all add: onSessionChange_def auth_effect_def profile_effect_def)

lemma auth_effect_settled:
  assumes "pendingNavigation s = None \<or>
           \<not> (isLoaded sess \<and> isSignedIn sess \<and> user sess \<noteq> None)"
  shows "auth_effect sess (auth_effect sess s s) (auth_effect sess s s) = auth_effect sess s s"
proof (cases "isLoaded sess \<and> isSignedIn sess \<and> user sess \<noteq> None")
  case True
  with assms have none: "pendingNavigation s = None" by simp
  consider (register) "\<not> userDataComplete s \<and> currentScreen s \<noteq> Register"
    | (redirect) "\<not> (\<not> userDataComplete s \<and> currentScreen s \<noteq> Register) \<and>
        (currentScreen s = Homepage \<or> currentScreen s = Login \<or> currentScreen s = Signup)"
    | (stay) "\<not> (\<not> userDataComplete s \<and> currentScreen s \<noteq> Register) \<and>
        \<not> (currentScreen s = Homepage \<or> currentScreen s = Login \<or> currentScreen s = Signup)"
    by blast
  then show ?thesis
  proof cases
    case register
    then have "auth_effect sess s s = s\<lparr>currentScreen := Register\<rparr>"
      using True none by (auto simp: auth_effect_def)
    then show ?thesis using True none by (auto simp: auth_effect_def)
  next
    case redirect
    then have "auth_effect sess s s = s\<lparr>currentScreen := Welcome\<rparr>"
      using True none by (auto simp: auth_effect_def)
    then show ?thesis using True none redirect by (auto simp: auth_effect_def)
  next
    case stay
    then have "auth_effect sess s s = s"
      using True none by (auto simp: auth_effect_def)
    then show ?thesis by simp
  qed
next
  case False
  show ?thesis
  proof (cases "isLoaded sess \<and> \<not> isSignedIn sess \<and>
                (currentScreen s = Home \<or> currentScreen s = Welcome)")
    case True
    then have "auth_effect sess s s = s\<lparr>currentScreen := Homepage\<rparr>"
      by (auto simp: auth_effect_def)
    then show ?thesis using True by (auto simp: auth_effect_def)
  next
    case out: False
    then have "auth_effect sess s s = s"
      using False by (auto simp: auth_effect_def)
    then show ?thesis by simp
  qed
qed

lemma settled_idem:
  assumes "pendingNavigation s = None \<or>
           \<not> (isLoaded sess \<and> isSignedIn sess \<and> user sess \<noteq> None)"
    and "profile_effect sess s = s"
  shows "onSessionChange sess (onSessionChange sess s) = onSessionChange sess s"
proof -
  have F: "onSessionChange sess t = auth_effect sess t t" if "profile_effect sess t = t" for t
    using that by (simp add: onSessionChange_def)
  have 1: "onSessionChange sess s = auth_effect sess s s" using assms(2) by (rule F)
  have 2: "onSessionChange sess (onSessionChange sess s) =
     auth_effect sess (auth_effect sess s s) (auth_effect sess s s)"
    using F [OF profile_after_change [of sess s]] by (simp add: 1)
  note 2
  also have "auth_effect sess (auth_effect sess s s) (auth_effect sess s s) = auth_effect sess s s"
    by (rule auth_effect_settled [OF assms(1)])
  also have "auth_effect sess s s = onSessionChange sess s"
    by (rule 1 [symmetric])
  finally show ?thesis .
qed

text \<open>
  Claim C9, as stated: running the session-change effects twice under one session gives
  the same state as running them once. It fails after a sign-up started from a feature
  link: the first run consumes the pending target \<^verbatim>\<open>lab\<close>, the second run finds the
  profile incomplete and moves to \<^verbatim>\<open>register\<close>.
\<close>

theorem session_change_not_idempotent:
  "onSessionChange (signed_in new_user)
     (onSessionChange (signed_in new_user)
        (initial_state\<lparr>pendingNavigation := Some Lab, currentScreen := Signup\<rparr>)) \<noteq>
   onSessionChange (signed_in new_user)
     (initial_state\<lparr>pendingNavigation := Some Lab, currentScreen := Signup\<rparr>)"
  by (simp add: onSessionChange_def auth_effect_def profile_effect_def signed_in_def new_user_def
      initial_state_def hasBasicInfo_def hasMetadata_def truthy_def isTemp_def)

text \<open>
  Claim C9, amended. The effects settle after two runs: a third run under the same session
  changes nothing. A single run is already repeatable when no navigation is pending (or the
  session is not a loaded, signed-in one with a user) and \<open>userDataComplete\<close> and
  \<open>isTempAccount\<close> already agree with the session.
\<close>

theorem session_change_settles:
  "onSessionChange sess (onSessionChange sess (onSessionChange sess s)) =
     onSessionChange sess (onSessionChange sess s) \<and>
   ((pendingNavigation s = None \<or>
     \<not> (isLoaded sess \<and> isSignedIn sess \<and> user sess \<noteq> None)) \<and>
    profile_effect sess s = s \<longrightarrow>
      onSessionChange sess (onSessionChange sess s) = onSessionChange sess s)"
proof (intro conjI impI)
  show "onSessionChange sess (onSessionChange sess (onSessionChange sess s)) =
     onSessionChange sess (onSessionChange sess s)"
  proof (rule settled_idem)
    show "pendingNavigation (onSessionChange sess s) = None \<or>
        \<not> (isLoaded sess \<and> isSignedIn sess \<and> user sess \<noteq> None)"
      using pending_after_change [of sess s] by blast
    show "profile_effect sess (onSessionChange sess s) = onSessionChange sess s"
      by (rule profile_after_change)
  qed
next
  assume "(pendingNavigation s = None \<or>
     \<not> (isLoaded sess \<and> isSignedIn sess \<and> user sess \<noteq> None)) \<and>
    profile_effect sess s = s"
  then show "onSessionChange sess (onSessionChange sess s) = onSessionChange sess s"
    by (blast intro: settled_idem)
qed

theorem session_change_settles_witness:
  "currentScreen
     (onSessionChange (signed_in complete_user) (initial_state\<lparr>userDataComplete := True\<rparr>))
     = Welcome \<and>
   onSessionChange (signed_in complete_user)
     (onSessionChange (signed_in complete_user) (initial_state\<lparr>userDataComplete := True\<rparr>)) =
   onSessionChange (signed_in complete_user) (initial_state\<lparr>userDataComplete := True\<rparr>)"
  using session_change_settles
    [of "signed_in complete_user" "initial_state\<lparr>userDataComplete := True\<rparr>"]
  by (simp add: onSessionChange_def auth_effect_def profile_effect_def signed_in_def
      complete_user_def initial_state_def hasBasicInfo_def hasMetadata_def truthy_def
      isTemp_def)

section \<open>Pending navigation\<close>









section \<open>The professional screen and the professional mode\<close>

lemma professional_actions_gated:
  "offered sess s (ProfessionalPortalSelection p) \<Longrightarrow> isProfessionalMode s"
  "offered sess s BackToProfessionalPortal \<Longrightarrow> isProfessionalMode s"
  by (simp_all add: offered_def render_def split: if_splits)

lemma auth_effect_professional:
  "professionalScreen (auth_effect sess snap st) = professionalScreen st \<and>
   isProfessionalMode (auth_effect sess snap st) = isProfessionalMode st"
  by (cases "pendingNavigation snap") (simp_all add: auth_effect_def)

lemma profile_effect_professional:
  "professionalScreen (profile_effect sess st) = professionalScreen st \<and>
   isProfessionalMode (profile_effect sess st) = isProfessionalMode st"
  by (cases "user sess") (simp_all add: profile_effect_def)

lemma registration_professional:
  "professionalScreen (fst (handleRegistrationComplete sess upd d s w)) = professionalScreen s \<and>
   isProfessionalMode (fst (handleRegistrationComplete sess upd d s w)) = isProfessionalMode s"
  by (cases "user sess"; cases "upd (CompleteProfile d) w";
      cases "fst (upd (CompleteProfile d) w)"; cases "pendingNavigation s")
     (simp_all add: handleRegistrationComplete_def Let_def)

lemma navigate_professional:
  "handleNavigateToFeature sess k s = Inr s' \<Longrightarrow>
     professionalScreen s' = professionalScreen s \<and> isProfessionalMode s' = isProfessionalMode s"
  by (cases "object_get featureScreenMap k")
     (auto simp: handleNavigateToFeature_def split: if_splits)

lemma tab_professional:
  "handleTabChange k s = Inr s' \<Longrightarrow>
     professionalScreen s' = professionalScreen s \<and> isProfessionalMode s' = isProfessionalMode s"
  by (cases "object_get tabScreenMap k")
     (auto simp: handleTabChange_def handleTrialFeatureAccess_def split: if_splits)

lemma event_preserves:
  assumes "professional_invariant s" "offered sess s a" "perform sess a s = Inr s'"
  shows "professional_invariant s'"
proof (cases a)
  case (ProfessionalPortalSelection p)
  with assms(2) have "isProfessionalMode s" by (simp add: professional_actions_gated)
  with assms(3) ProfessionalPortalSelection show ?thesis
    by (auto simp: perform_def professional_invariant_def handleProfessionalPortalSelection_def)
next
  case BackToProfessionalPortal
  with assms(2) have "isProfessionalMode s" by (simp add: professional_actions_gated)
  with assms(3) BackToProfessionalPortal show ?thesis
    by (auto simp: perform_def professional_invariant_def handleBackToProfessionalPortal_def)
next
  case (RegistrationComplete d outcome)
  with assms(1,3) show ?thesis
    using registration_professional [of sess "\<lambda>_ w. (outcome, w)" d s "()"]
    by (auto simp: perform_def professional_invariant_def)
next
  case (NavigateToFeature k)
  with assms(1,3) show ?thesis
    using navigate_professional [of sess k s s']
    by (auto simp: perform_def professional_invariant_def)
next
  case (TabChange k)
  with assms(1,3) show ?thesis
    using tab_professional [of k s s']
    by (auto simp: perform_def professional_invariant_def)
qed (use assms(1,3) in \<open>auto simp: perform_def professional_invariant_def handleGoToLogin_def
      handleGoToSignup_def handleBackToHomepage_def handleNavigation_def
      handleProfessionalPortalAccess_def handleSimpleSignupComplete_def
      handleWelcomeComplete_def handleOpenRegisterModal_def handleCloseRegisterModal_def
      backToHome_def\<close>)

lemma reachable_portal: "reachable (handleProfessionalPortalAccess initial_state)"
  by (rule reachable.event [OF reachable.start, of signed_out ProfessionalPortalAccess])
     (simp_all add: offered_def render_def signed_out_def initial_state_def perform_def)

lemma reachable_dashboard:
  "reachable (handleProfessionalPortalSelection ''doctor-dashboard''
     (handleProfessionalPortalAccess initial_state))"
  by (rule reachable.event
        [OF reachable_portal, of signed_out "ProfessionalPortalSelection ''doctor-dashboard''"])
     (simp_all add: offered_def render_def renderProfessionalScreen_def signed_out_def
        initial_state_def perform_def handleProfessionalPortalAccess_def)

text \<open>
  Claim C3, as stated: every router operation preserves, from every state, that
  \<open>professionalScreen\<close> is set only in professional mode. The initial state satisfies the
  predicate, and \<^verbatim>\<open>handleProfessionalPortalSelection\<close> applied to it sets the screen
  without entering the mode.
\<close>

theorem selection_breaks_professional_invariant:
  "professional_invariant initial_state \<and>
   \<not> professional_invariant
       (handleProfessionalPortalSelection ''doctor-dashboard'' initial_state)"
  by (simp add: professional_invariant_def initial_state_def
      handleProfessionalPortalSelection_def)

text \<open>
  Claim C3, amended. The predicate holds in every state that the router reaches from the
  initial state when each callback is invoked from a view that was handed it: the two
  callbacks that set \<open>professionalScreen\<close> without setting the mode are handed only to
  the professional views, which are mounted only in professional mode.
\<close>

theorem professional_invariant_reachable:
  "reachable s \<Longrightarrow> professional_invariant s"
proof (induction rule: reachable.induct)
  case start
  show ?case by (simp add: professional_invariant_def initial_state_def)
next
  case (session_change s sess)
  then show ?case
    by (simp add: professional_invariant_def onSessionChange_def auth_effect_professional
        profile_effect_professional)
next
  case (rerun s sess)
  then show ?case by (simp add: professional_invariant_def auth_effect_professional)
next
  case (event s sess a s')
  then show ?case by (blast intro: event_preserves)
qed

theorem professional_invariant_reachable_witness:
  "reachable (handleProfessionalPortalSelection ''doctor-dashboard''
     (handleProfessionalPortalAccess initial_state)) \<and>
   professionalScreen (handleProfessionalPortalSelection ''doctor-dashboard''
     (handleProfessionalPortalAccess initial_state)) = Some ''doctor-dashboard'' \<and>
   professional_invariant (handleProfessionalPortalSelection ''doctor-dashboard''
     (handleProfessionalPortalAccess initial_state))"
  using professional_invariant_reachable [OF reachable_dashboard] reachable_dashboard
  by (simp add: handleProfessionalPortalSelection_def)

section \<open>Registration\<close>

text \<open>
  Claim C4. With a user present, when \<^verbatim>\<open>user.update\<close> throws, the handler writes one line
  to the console and leaves the router state as it was; when it returns, the handler sets
  \<open>userDataComplete\<close>, clears \<open>isTempAccount\<close> and \<open>showRegisterModal\<close>, and moves to the
  pending target (clearing it) or, with nothing pending, to \<^verbatim>\<open>welcome\<close>.
\<close>

theorem registration_complete:
  "user sess \<noteq> None \<longrightarrow>
   (userUpdate (CompleteProfile d) w = (Inl err, w') \<longrightarrow>
      handleRegistrationComplete sess userUpdate d s w =
        (s, [(''Failed to update user profile:'', err)], w')) \<and>
   (userUpdate (CompleteProfile d) w = (Inr (), w') \<longrightarrow>
      handleRegistrationComplete sess userUpdate d s w =
        ((case pendingNavigation s of
            Some p \<Rightarrow> s\<lparr>userDataComplete := True, isTempAccount := False,
                         showRegisterModal := False, currentScreen := p,
                         pendingNavigation := None\<rparr>
          | None \<Rightarrow> s\<lparr>userDataComplete := True, isTempAccount := False,
                       showRegisterModal := False, currentScreen := Welcome\<rparr>), [], w'))"
  by (cases "user sess"; cases "pendingNavigation s")
     (simp_all add: handleRegistrationComplete_def Let_def)

theorem registration_complete_witness:
  "handleRegistrationComplete (signed_in new_user) failing_update example_data
     (initial_state\<lparr>currentScreen := Register, pendingNavigation := Some Lab\<rparr>) () =
     (initial_state\<lparr>currentScreen := Register, pendingNavigation := Some Lab\<rparr>,
      [(''Failed to update user profile:'', \<lparr>errors = None\<rparr>)], ()) \<and>
   handleRegistrationComplete (signed_in new_user) accepting_update example_data
     (initial_state\<lparr>currentScreen := Register, pendingNavigation := Some Lab\<rparr>) () =
     (initial_state\<lparr>currentScreen := Lab, userDataComplete := True\<rparr>, [], ())"
  using registration_complete
    [of "signed_in new_user" failing_update example_data "()" "\<lparr>errors = None\<rparr>" "()"
        "initial_state\<lparr>currentScreen := Register, pendingNavigation := Some Lab\<rparr>"]
    registration_complete
    [of "signed_in new_user" accepting_update example_data "()" "\<lparr>errors = None\<rparr>" "()"
        "initial_state\<lparr>currentScreen := Register, pendingNavigation := Some Lab\<rparr>"]
  by (simp add: signed_in_def initial_state_def failing_update_def accepting_update_def)

section \<open>Results of login, signup and verification\<close>

lemma or_else_cases:
  "or_else (Some m) fallback = (if m = [] then fallback else m)"
  "or_else None fallback = fallback"
  by (simp_all add: or_else_def truthy_def)

lemma login_calls: "distinct (fst (snd (handleLogin signIn email password w)))"
  by (cases signIn) (auto simp: handleLogin_def split: prod.splits sum.splits)

lemma login_typed:
  "success (fst (handleLogin signIn email password w)) =
     (error (fst (handleLogin signIn email password w)) = None)"
  by (cases signIn)
     (auto simp: handleLogin_def failed_def succeeded_def split: prod.splits sum.splits)

lemma login_thrown:
  "signIn = Some c \<Longrightarrow> c email password w = (Inl err, w') \<Longrightarrow>
     fst (handleLogin signIn email password w) =
       failed (or_else (first_longMessage err) ''Login failed'')"
  by (simp add: handleLogin_def)

lemma verify_calls: "distinct (fst (snd (handleVerifyEmail signUp code w)))"
  by (cases signUp) (auto simp: handleVerifyEmail_def split: prod.splits sum.splits)

lemma verify_typed:
  "success (fst (handleVerifyEmail signUp code w)) =
     (error (fst (handleVerifyEmail signUp code w)) = None)"
  by (cases signUp)
     (auto simp: handleVerifyEmail_def failed_def succeeded_def split: prod.splits sum.splits)

lemma verify_thrown:
  "signUp = Some su \<Longrightarrow> attemptEmailAddressVerification su code w = (Inl err, w') \<Longrightarrow>
     fst (handleVerifyEmail signUp code w) =
       failed (or_else (first_longMessage err) ''Verification failed'')"
  by (simp add: handleVerifyEmail_def)

lemma signup_calls:
  "distinct (fst (snd (handleSignup signUp upd email password isSimple w)))"
  by (cases signUp)
     (auto simp: handleSignup_def split: prod.splits sum.splits option.splits)

lemma signup_typed:
  "success (fst (handleSignup signUp upd email password isSimple w)) =
     (error (fst (handleSignup signUp upd email password isSimple w)) = None)"
  by (cases signUp)
     (auto simp: handleSignup_def failed_def succeeded_def
        split: prod.splits sum.splits option.splits)

lemma signup_thrown_create:
  "signUp = Some su \<Longrightarrow> create su email password w = (Inl err, w') \<Longrightarrow>
     fst (handleSignup signUp upd email password isSimple w) =
       failed (or_else (first_longMessage err) ''Signup failed'')"
  by (simp add: handleSignup_def)

lemma signup_thrown_prepare:
  "signUp = Some su \<Longrightarrow> create su email password w = (Inr ''missing_requirements'', w1) \<Longrightarrow>
   prepareEmailAddressVerification su w1 = (Inl err, w2) \<Longrightarrow>
     fst (handleSignup signUp upd email password isSimple w) =
       failed (or_else (first_longMessage err) ''Signup failed'')"
  by (simp add: handleSignup_def)

lemma signup_thrown_update:
  "signUp = Some su \<Longrightarrow> create su email password w = (Inr ''complete'', w1) \<Longrightarrow> isSimple \<Longrightarrow>
   upd = Some update \<Longrightarrow> update TemporaryAccount w1 = (Inl err, w2) \<Longrightarrow>
     fst (handleSignup signUp upd email password isSimple w) =
       failed (or_else (first_longMessage err) ''Signup failed'')"
  by (simp add: handleSignup_def)

lemma login_not_thrown:
  "signIn = None \<Longrightarrow>
     fst (handleLogin signIn email password w) = failed ''Login not available''"
  "signIn = Some c \<Longrightarrow> c email password w = (Inr st, w') \<Longrightarrow> st \<noteq> ''complete'' \<Longrightarrow>
     fst (handleLogin signIn email password w) = failed ''Additional verification required''"
  by (simp_all add: handleLogin_def)

lemma signup_not_thrown:
  "signUp = None \<Longrightarrow>
     fst (handleSignup signUp upd email password isSimple w) = failed ''Signup not available''"
  "signUp = Some su \<Longrightarrow> create su email password w = (Inr st, w') \<Longrightarrow>
   st \<noteq> ''missing_requirements'' \<Longrightarrow> st \<noteq> ''complete'' \<Longrightarrow>
     fst (handleSignup signUp upd email password isSimple w) = failed ''Signup incomplete''"
  by (simp_all add: handleSignup_def)

lemma verify_not_thrown:
  "signUp = None \<Longrightarrow>
     fst (handleVerifyEmail signUp code w) = failed ''Verification not available''"
  "signUp = Some su \<Longrightarrow> attemptEmailAddressVerification su code w = (Inr st, w') \<Longrightarrow>
   st \<noteq> ''complete'' \<Longrightarrow>
     fst (handleVerifyEmail signUp code w) = failed ''Verification failed''"
  by (simp_all add: handleVerifyEmail_def)

text \<open>
  Claim C5, as stated: the error string of every failure is the provider's error message
  verbatim. A sign-in that the provider answers with a status other than
  \<^verbatim>\<open>complete\<close> fails with a string of the handler although the provider reported no
  error, and a thrown error without a \<^verbatim>\<open>longMessage\<close> is reported as \<^verbatim>\<open>Login failed\<close>.
\<close>

theorem login_failure_not_verbatim:
  "handleLogin (Some second_factor_signIn) ''asha@example.org'' ''secret'' () =
     (failed ''Additional verification required'',
      [SignInCreate ''asha@example.org'' ''secret''], ()) \<and>
   first_longMessage \<lparr>errors = None\<rparr> = None \<and>
   handleLogin (Some unreachable_signIn) ''asha@example.org'' ''secret'' () =
     (failed ''Login failed'', [SignInCreate ''asha@example.org'' ''secret''], ())"
  by (simp add: handleLogin_def first_longMessage_def or_else_def truthy_def
      second_factor_signIn_def unreachable_signIn_def)

text \<open>
  Claim C5, amended. Each of the three handlers returns a typed result (it is a failure
  exactly when it carries an error string) and makes every provider call at most once. When
  a provider call throws, the error string is the first \<^verbatim>\<open>longMessage\<close> of the thrown
  error, verbatim, if that is present and not empty, and the handler's fallback string
  otherwise. A failure without a throw (provider not available, status not complete)
  carries a fixed string of the handler.
\<close>

theorem auth_results:
  "success (fst (handleLogin signIn email password w)) =
     (error (fst (handleLogin signIn email password w)) = None) \<and>
   success (fst (handleSignup signUp upd email password isSimple w)) =
     (error (fst (handleSignup signUp upd email password isSimple w)) = None) \<and>
   success (fst (handleVerifyEmail signUp code w)) =
     (error (fst (handleVerifyEmail signUp code w)) = None) \<and>
   distinct (fst (snd (handleLogin signIn email password w))) \<and>
   distinct (fst (snd (handleSignup signUp upd email password isSimple w))) \<and>
   distinct (fst (snd (handleVerifyEmail signUp code w))) \<and>
   or_else (Some m) fallback = (if m = [] then fallback else m) \<and>
   or_else None fallback = fallback \<and>
   (signIn = Some c \<and> c email password w = (Inl err, w') \<longrightarrow>
      fst (handleLogin signIn email password w) =
        failed (or_else (first_longMessage err) ''Login failed'')) \<and>
   (signUp = Some su \<and> create su email password w = (Inl err, w') \<longrightarrow>
      fst (handleSignup signUp upd email password isSimple w) =
        failed (or_else (first_longMessage err) ''Signup failed'')) \<and>
   (signUp = Some su \<and> create su email password w = (Inr ''missing_requirements'', wa) \<and>
    prepareEmailAddressVerification su wa = (Inl err, wb) \<longrightarrow>
      fst (handleSignup signUp upd email password isSimple w) =
        failed (or_else (first_longMessage err) ''Signup failed'')) \<and>
   (signUp = Some su \<and> create su email password w = (Inr ''complete'', wa) \<and> isSimple \<and>
    upd = Some update \<and> update TemporaryAccount wa = (Inl err, wb) \<longrightarrow>
      fst (handleSignup signUp upd email password isSimple w) =
        failed (or_else (first_longMessage err) ''Signup failed'')) \<and>
   (signUp = Some su \<and> attemptEmailAddressVerification su code w = (Inl err, w') \<longrightarrow>
      fst (handleVerifyEmail signUp code w) =
        failed (or_else (first_longMessage err) ''Verification failed'')) \<and>
   (signIn = None \<longrightarrow>
      fst (handleLogin signIn email password w) = failed ''Login not available'') \<and>
   (signIn = Some c \<and> c email password w = (Inr st, w') \<and> st \<noteq> ''complete'' \<longrightarrow>
      fst (handleLogin signIn email password w) = failed ''Additional verification required'') \<and>
   (signUp = None \<longrightarrow>
      fst (handleSignup signUp upd email password isSimple w) = failed ''Signup not available'' \<and>
      fst (handleVerifyEmail signUp code w) = failed ''Verification not available'') \<and>
   (signUp = Some su \<and> create su email password w = (Inr st, w') \<and>
    st \<noteq> ''missing_requirements'' \<and> st \<noteq> ''complete'' \<longrightarrow>
      fst (handleSignup signUp upd email password isSimple w) = failed ''Signup incomplete'') \<and>
   (signUp = Some su \<and> attemptEmailAddressVerification su code w = (Inr st, w') \<and>
    st \<noteq> ''complete'' \<longrightarrow>
      fst (handleVerifyEmail signUp code w) = failed ''Verification failed'')"
proof (intro conjI impI; (elim conjE)?)
  show "success (fst (handleLogin signIn email password w)) =
     (error (fst (handleLogin signIn email password w)) = None)"
    by (rule login_typed)
  show "success (fst (handleSignup signUp upd email password isSimple w)) =
     (error (fst (handleSignup signUp upd email password isSimple w)) = None)"
    by (rule signup_typed)
  show "success (fst (handleVerifyEmail signUp code w)) =
     (error (fst (handleVerifyEmail signUp code w)) = None)"
    by (rule verify_typed)
  show "distinct (fst (snd (handleLogin signIn email password w)))"
    by (rule login_calls)
  show "distinct (fst (snd (handleSignup signUp upd email password isSimple w)))"
    by (rule signup_calls)
  show "distinct (fst (snd (handleVerifyEmail signUp code w)))"
    by (rule verify_calls)
qed (simp_all add: or_else_cases handleLogin_def handleSignup_def handleVerifyEmail_def)

theorem auth_results_witness:
  "handleLogin (Some rejecting_signIn) ''asha@example.org'' ''secret'' () =
     (failed ''Password is incorrect.'', [SignInCreate ''asha@example.org'' ''secret''], ()) \<and>
   fst (handleSignup (Some example_signUp) None ''asha@example.org'' ''secret'' False ()) =
     failed ''Signup failed'' \<and>
   fst (handleVerifyEmail (Some example_signUp) ''000000'' ()) = failed ''Verification failed''"
  using auth_results
    [where signIn = "Some rejecting_signIn" and c = rejecting_signIn and err = wrong_password
       and email = "''asha@example.org''" and password = "''secret''" and w = "()"
       and w' = "()" and signUp = None and m = "''Password is incorrect.''"]
    auth_results
    [where signUp = "Some example_signUp" and su = example_signUp
       and err = "\<lparr>errors = Some []\<rparr>" and upd = None and isSimple = False
       and email = "''asha@example.org''" and password = "''secret''" and code = "''000000''"
       and w = "()" and w' = "()" and wa = "()" and wb = "()" and st = "''expired''"
       and signIn = None]
  by (simp add: first_longMessage_def rejecting_signIn_def wrong_password_def
      example_signUp_def handleLogin_def)

section \<open>The proxy endpoint\<close>

text \<open>
  Claim C6. A request whose method is not \<^verbatim>\<open>POST\<close> is answered with status 405 and an
  error body, and nothing is sent to the backend. A \<^verbatim>\<open>POST\<close> request is sent once to the
  configured backend URL, by \<^verbatim>\<open>POST\<close>, with content type \<^verbatim>\<open>application/json\<close> and the
  request's body; when the backend's response parses as JSON it is returned with status
  200, and when the fetch is rejected the answer is status 500 with an error body.
\<close>

theorem proxy_handler:
  "(req_method req \<noteq> ''POST'' \<longrightarrow>
      handler fetch env req =
        (\<lparr>status = 405, json = ErrorMessage ''Method not allowed''\<rparr>, [], [])) \<and>
   (req_method req = ''POST'' \<and> env = Some backendUrl \<longrightarrow>
      fst (snd (handler fetch env req)) =
        [\<lparr>url = backendUrl, fetch_method = ''POST'',
          headers = [(''Content-Type'', ''application/json'')],
          fetch_body = req_body req\<rparr>] \<and>
      (fetch \<lparr>url = backendUrl, fetch_method = ''POST'',
          headers = [(''Content-Type'', ''application/json'')],
          fetch_body = req_body req\<rparr> = Resolved (Some data) \<longrightarrow>
         fst (handler fetch env req) = \<lparr>status = 200, json = Data data\<rparr>) \<and>
      (fetch \<lparr>url = backendUrl, fetch_method = ''POST'',
          headers = [(''Content-Type'', ''application/json'')],
          fetch_body = req_body req\<rparr> = Rejected \<longrightarrow>
         fst (handler fetch env req) =
           \<lparr>status = 500, json = ErrorMessage ''Failed to reach backend''\<rparr>))"
  by (auto simp: handler_def Let_def split: fetch_outcome.splits option.splits)

theorem proxy_handler_witness:
  "handler answering_backend (Some ''https://backend.example/api'')
     \<lparr>req_method = ''GET'', req_body = ''ping''\<rparr> =
     (\<lparr>status = 405, json = ErrorMessage ''Method not allowed''\<rparr>, [], []) \<and>
   fst (snd (handler answering_backend (Some ''https://backend.example/api'')
     \<lparr>req_method = ''POST'', req_body = ''ping''\<rparr>)) =
     [\<lparr>url = ''https://backend.example/api'', fetch_method = ''POST'',
       headers = [(''Content-Type'', ''application/json'')], fetch_body = ''ping''\<rparr>] \<and>
   fst (handler answering_backend (Some ''https://backend.example/api'')
     \<lparr>req_method = ''POST'', req_body = ''ping''\<rparr>) = \<lparr>status = 200, json = Data ''pong''\<rparr> \<and>
   fst (handler unreachable_backend (Some ''https://backend.example/api'')
     \<lparr>req_method = ''POST'', req_body = ''ping''\<rparr>) =
     \<lparr>status = 500, json = ErrorMessage ''Failed to reach backend''\<rparr>"
  using proxy_handler
    [of "\<lparr>req_method = ''GET'', req_body = ''ping''\<rparr>" answering_backend
        "Some ''https://backend.example/api''" "''https://backend.example/api''" "''pong''"]
    proxy_handler
    [of "\<lparr>req_method = ''POST'', req_body = ''ping''\<rparr>" answering_backend
        "Some ''https://backend.example/api''" "''https://backend.example/api''" "''pong''"]
    proxy_handler
    [of "\<lparr>req_method = ''POST'', req_body = ''ping''\<rparr>" unreachable_backend
        "Some ''https://backend.example/api''" "''https://backend.example/api''" "''pong''"]
  by (simp add: answering_backend_def unreachable_backend_def)

section \<open>Feature keys\<close>

lemma unknown_feature_key:
  "k \<notin> {''doctors'', ''medicine'', ''lab'', ''ambulance''} \<Longrightarrow> k \<notin> set objectPrototypeKeys \<Longrightarrow>
     handleNavigateToFeature sess k s = Inr s"
  by (simp add: handleNavigateToFeature_def object_get_def featureScreenMap_def)

text \<open>
  Claim C10 says that every key outside \<^verbatim>\<open>doctors\<close>, \<^verbatim>\<open>medicine\<close>, \<^verbatim>\<open>lab\<close> and
  \<^verbatim>\<open>ambulance\<close> leaves the router state unchanged. For the key \<^verbatim>\<open>toString\<close> the lookup in
  the object literal finds the inherited member, the guard passes, and the member reaches
  the state setters: the handler does not return the unchanged state.
\<close>

theorem inherited_feature_key:
  "handleNavigateToFeature sess ''toString'' s = Inl (NonScreenValue ''toString'')"
  by (simp add: handleNavigateToFeature_def object_get_def featureScreenMap_def
      objectPrototypeKeys_def)

end
